theory Spec2Isabelle
  imports Complex_Main "HOL-Library.Char_ord" "HOL-Library.List_Lexorder"
begin

section \<open>BDD100K polygon labels to YOLO text labels: the embedding of bdd100k2yolo.py\<close>

text \<open>
  The script reads a JSON array of annotation records, builds a table from category
  names to integer ids, copies every image it finds, writes one text file of normalised
  polygons per copied image, and finally writes a manifest \<^verbatim>\<open>data.yaml\<close>.

  Conventions of the embedding.
  \<^item> A Python exception is a value of \<open>py_error\<close>; a function that can raise returns an
    \<open>outcome\<close>, which in the raising case still carries the world as it was when the
    exception left the function (files written before the exception stay written).
  \<^item> The file system is a map from path strings to file contents; two paths name the
    same file exactly when they are the same string. Directories are not modelled, so
    \<^verbatim>\<open>os.makedirs\<close> changes nothing and a filename is expected not to point into a
    directory that does not exist. Permission errors are outside the model.
  \<^item> The JSON loader is the map \<open>json_files\<close> from a path to the parsed array; a missing
    file raises \<open>FileNotFoundError\<close>; a malformed file is outside the model.
  \<^item> A JSON number is the rational it denotes. Python's \<^verbatim>\<open>/\<close> rounds the exact quotient
    to the nearest binary64 value, ties to even (\<open>float_round\<close>), for an \<^verbatim>\<open>int\<close> as for
    a \<^verbatim>\<open>float\<close> operand. The constants \<^verbatim>\<open>NaN\<close> and \<^verbatim>\<open>Infinity\<close> that Python's JSON
    reader accepts, and the sign of a zero, are outside the model.
  \<^item> Strings are byte strings; the order on them is the lexicographic order on bytes,
    which on UTF-8 text is Python's order on code points.
  \<^item> \<^verbatim>\<open>os.path\<close> is taken in its POSIX flavour.
  \<^item> The progress bar of \<^verbatim>\<open>tqdm\<close> goes to standard error, which is not modelled.
\<close>

subsection \<open>Exceptions and outcomes\<close>

datatype py_error =
    KeyError string
  | IndexError
  | OverflowError
  | ZeroDivisionError
  | FileNotFoundError string
  | SameFileError

datatype ('a, 's) outcome = Normal 'a | Raised py_error 's

subsection \<open>Python numbers: true division and the format \<^verbatim>\<open>.6f\<close>\<close>

text \<open>Rounding to the nearest integer, ties to the even one.\<close>

definition round_half_even :: "rat \<Rightarrow> int" where
  "round_half_even q =
     (let f = \<lfloor>q\<rfloor>; d = q - of_int f
      in if d < 1 / 2 then f
         else if 1 / 2 < d then f + 1
         else if even f then f else f + 1)"

text \<open>\<^verbatim>\<open>int.bit_length\<close>.\<close>

fun bit_length :: "nat \<Rightarrow> nat" where
  "bit_length n = (if n = 0 then 0 else Suc (bit_length (n div 2)))"

declare bit_length.simps [simp del]

definition pow2 :: "int \<Rightarrow> rat" where
  "pow2 k = (if 0 \<le> k then 2 ^ nat k else 1 / 2 ^ nat (- k))"

text \<open>The binary exponent of a non-zero rational: the \<open>e\<close> with \<open>2^e \<le> |q| < 2^(e+1)\<close>.\<close>

definition binade :: "rat \<Rightarrow> int" where
  "binade q =
     (if 1 \<le> \<bar>q\<bar> then int (bit_length (nat \<lfloor>\<bar>q\<bar>\<rfloor>)) - 1
      else (let l = int (bit_length (nat \<lfloor>1 / \<bar>q\<bar>\<rfloor>))
            in if \<bar>q\<bar> * pow2 (l - 1) = 1 then 1 - l else - l))"

text \<open>
  The nearest binary64 value (53 significant bits, least normal exponent \<open>-1022\<close>, below
  it the fixed spacing \<open>2^-1074\<close> of the subnormal numbers), ties to even. The exponent
  is not bounded above here: \<open>true_div\<close> raises where the result leaves the format.
\<close>

definition float_round :: "rat \<Rightarrow> rat" where
  "float_round q =
     (if q = 0 then 0
      else (let e = max (binade q) (- 1022); ulp = pow2 (e - 52)
            in of_int (round_half_even (q / ulp)) * ulp))"

text \<open>
  Python's \<^verbatim>\<open>x / d\<close>. A float operand is below \<open>2^1024\<close> already, so the overflow is that
  of an integer operand (\<^verbatim>\<open>integer division result too large for a float\<close>).
\<close>

definition true_div :: "rat \<Rightarrow> rat \<Rightarrow> py_error + rat" where
  "true_div x d =
     (if d = 0 then Inl ZeroDivisionError
      else (let r = float_round (x / d)
            in if pow2 1024 \<le> \<bar>r\<bar> then Inl OverflowError else Inr r))"

text \<open>\<^verbatim>\<open>str\<close> of a non-negative integer.\<close>

definition digit_char :: "nat \<Rightarrow> char" where
  "digit_char d = ''0123456789'' ! d"

fun str_nat :: "nat \<Rightarrow> string" where
  "str_nat n = (if n < 10 then [digit_char n] else str_nat (n div 10) @ [digit_char (n mod 10)])"

declare str_nat.simps [simp del]

definition zero_pad :: "nat \<Rightarrow> string \<Rightarrow> string" where
  "zero_pad k s = replicate (k - length s) CHR ''0'' @ s"

text \<open>
  \<^verbatim>\<open>f"{v:.6f}"\<close>: the exact value of the float, rounded to six decimals with ties to even,
  written as sign, integer part, point and six digits.
\<close>

definition format_6f :: "rat \<Rightarrow> string" where
  "format_6f v =
     (let n = nat \<bar>round_half_even (v * 1000000)\<bar>
      in (if v < 0 then ''-'' else []) @ str_nat (n div 1000000) @ ''.'' @
         zero_pad 6 (str_nat (n mod 1000000)))"

text \<open>\<^verbatim>\<open>sep.join(xs)\<close>.\<close>

fun py_join :: "string \<Rightarrow> string list \<Rightarrow> string" where
  "py_join sep [] = []"
| "py_join sep [x] = x"
| "py_join sep (x # y # ys) = x @ sep @ py_join sep (y # ys)"

subsection \<open>\<^verbatim>\<open>repr\<close> of a list of strings\<close>

definition hex_char :: "nat \<Rightarrow> char" where
  "hex_char d = ''0123456789abcdef'' ! d"

text \<open>
  \<^verbatim>\<open>repr\<close> escapes the quote in use, the backslash, tab, newline, carriage return and the
  other control characters; bytes from \<open>0x80\<close> on stand for printable text and are kept.
\<close>

definition repr_char :: "char \<Rightarrow> char \<Rightarrow> string" where
  "repr_char quote c =
     (if c = quote \<or> c = CHR 0x5C then [CHR 0x5C, c]
      else if c = CHR 0x09 then [CHR 0x5C, CHR ''t'']
      else if c = CHR 0x0A then [CHR 0x5C, CHR ''n'']
      else if c = CHR 0x0D then [CHR 0x5C, CHR ''r'']
      else if (of_char c :: nat) < 32 \<or> (of_char c :: nat) = 127
        then [CHR 0x5C, CHR ''x'', hex_char (of_char c div 16), hex_char (of_char c mod 16)]
      else [c])"

definition repr_str :: "string \<Rightarrow> string" where
  "repr_str s =
     (let quote = (if CHR 0x27 \<in> set s \<and> CHR 0x22 \<notin> set s then CHR 0x22 else CHR 0x27)
      in [quote] @ concat (map (repr_char quote) s) @ [quote])"

definition repr_list :: "string list \<Rightarrow> string" where
  "repr_list xs = ''['' @ py_join '', '' (map repr_str xs) @ '']''"

subsection \<open>\<^verbatim>\<open>os.path\<close>\<close>

fun rfind_from :: "char \<Rightarrow> string \<Rightarrow> int \<Rightarrow> int \<Rightarrow> int" where
  "rfind_from c [] i found = found"
| "rfind_from c (x # xs) i found = rfind_from c xs (i + 1) (if x = c then i else found)"

text \<open>\<^verbatim>\<open>p.rfind(c)\<close>: the index of the last occurrence, or \<open>-1\<close>.\<close>

definition rfind :: "string \<Rightarrow> char \<Rightarrow> int" where
  "rfind p c = rfind_from c p 0 (- 1)"

text \<open>
  \<^verbatim>\<open>os.path.splitext\<close>: the extension starts at the last dot of the last component,
  unless only dots precede it there.
\<close>

definition os_path_splitext :: "string \<Rightarrow> string \<times> string" where
  "os_path_splitext p =
     (let sepIndex = rfind p CHR ''/'';
          dotIndex = rfind p CHR ''.''
      in if sepIndex < dotIndex \<and>
            list_ex (\<lambda>ch. ch \<noteq> CHR ''.'')
              (take (nat (dotIndex - (sepIndex + 1))) (drop (nat (sepIndex + 1)) p))
         then (take (nat dotIndex) p, drop (nat dotIndex) p)
         else (p, []))"

definition join_step :: "string \<Rightarrow> string \<Rightarrow> string" where
  "join_step b path =
     (if b \<noteq> [] \<and> hd b = CHR ''/'' then b
      else if path = [] \<or> last path = CHR ''/'' then path @ b
      else path @ ''/'' @ b)"

text \<open>\<^verbatim>\<open>os.path.join(a, *p)\<close>.\<close>

definition os_path_join :: "string \<Rightarrow> string list \<Rightarrow> string" where
  "os_path_join a p = fold join_step p a"

subsection \<open>The data model\<close>

record polygon =
  vertices :: "(rat \<times> rat) list"

record label =
  category :: "string option"
  poly2d :: "polygon list option"

record annotation_record =
  name :: string
  labels :: "label list"

text \<open>
  A Python \<^verbatim>\<open>dict\<close> keeps its keys in insertion order: the category mapping and the
  instance counter are association lists with distinct keys.
\<close>

type_synonym category_mapping = "(string \<times> nat) list"

type_synonym counter = "(string \<times> nat) list"

text \<open>\<^verbatim>\<open>counter[k] += 1\<close> on a \<^verbatim>\<open>Counter\<close>: a missing key counts as zero and is appended.\<close>

fun counter_incr :: "counter \<Rightarrow> string \<Rightarrow> counter" where
  "counter_incr [] k = [(k, 1)]"
| "counter_incr ((k', n) # kvs) k =
     (if k' = k then (k', n + 1) # kvs else (k', n) # counter_incr kvs k)"

text \<open>\<^verbatim>\<open>d.get(k, 0)\<close>.\<close>

definition counter_get :: "counter \<Rightarrow> string \<Rightarrow> nat" where
  "counter_get d k = (case map_of d k of None \<Rightarrow> 0 | Some n \<Rightarrow> n)"

subsection \<open>The category indexer\<close>

definition add_label_category :: "label \<Rightarrow> string set \<Rightarrow> string set" where
  "add_label_category lab categories =
     (case category lab of None \<Rightarrow> categories | Some c \<Rightarrow> insert c categories)"

definition add_item_categories :: "annotation_record \<Rightarrow> string set \<Rightarrow> string set" where
  "add_item_categories item categories = fold add_label_category (labels item) categories"

text \<open>\<^verbatim>\<open>{category: idx for idx, category in enumerate(sorted(categories))}\<close>\<close>

definition update_category_mapping :: "annotation_record list \<Rightarrow> category_mapping" where
  "update_category_mapping json_data =
     (let categories = fold add_item_categories json_data {}
      in map (\<lambda>(idx, c). (c, idx)) (List.enumerate 0 (sorted_list_of_set categories)))"

subsection \<open>The world: files, standard output, and the log of file operations\<close>

datatype io_event =
    CopyFile string string
  | OpenWrite string
  | WriteText string string

record world =
  json_files :: "string \<rightharpoonup> annotation_record list"
  files :: "string \<rightharpoonup> string"
  stdout :: "string list"
  io_log :: "io_event list"

text \<open>\<^verbatim>\<open>print(line)\<close>\<close>

definition print :: "string \<Rightarrow> 'a world_scheme \<Rightarrow> 'a world_scheme" where
  "print line w = w\<lparr>stdout := stdout w @ [line]\<rparr>"

definition print_all :: "string list \<Rightarrow> 'a world_scheme \<Rightarrow> 'a world_scheme" where
  "print_all lines w = fold print lines w"

definition load_json :: "string \<Rightarrow> 'a world_scheme \<Rightarrow> py_error + annotation_record list" where
  "load_json file_path w =
     (case json_files w file_path of
        None \<Rightarrow> Inl (FileNotFoundError file_path)
      | Some data \<Rightarrow> Inr data)"

text \<open>
  \<^verbatim>\<open>shutil.copy2(src, dst)\<close>: a missing source raises \<open>FileNotFoundError\<close>, a source that
  is the destination raises \<open>SameFileError\<close>, otherwise the destination holds the
  source's bytes afterwards.
\<close>

definition shutil_copy2 ::
  "string \<Rightarrow> string \<Rightarrow> 'a world_scheme \<Rightarrow> ('a world_scheme, 'a world_scheme) outcome" where
  "shutil_copy2 src dst w =
     (case files w src of
        None \<Rightarrow> Raised (FileNotFoundError src) w
      | Some bytes \<Rightarrow>
          if src = dst then Raised SameFileError w
          else Normal (w\<lparr>files := (files w)(dst \<mapsto> bytes),
                         io_log := io_log w @ [CopyFile src dst]\<rparr>))"

text \<open>\<^verbatim>\<open>open(path, 'w')\<close> creates the file, or empties the one that is there.\<close>

definition open_w :: "string \<Rightarrow> 'a world_scheme \<Rightarrow> 'a world_scheme" where
  "open_w path w = w\<lparr>files := (files w)(path \<mapsto> []), io_log := io_log w @ [OpenWrite path]\<rparr>"

text \<open>\<^verbatim>\<open>f.write(text)\<close> on a file opened at \<open>path\<close>.\<close>

definition file_write :: "string \<Rightarrow> string \<Rightarrow> 'a world_scheme \<Rightarrow> 'a world_scheme" where
  "file_write path text w =
     w\<lparr>files := (files w)(path \<mapsto> (case files w path of None \<Rightarrow> [] | Some old \<Rightarrow> old) @ text),
       io_log := io_log w @ [WriteText path text]\<rparr>"

subsection \<open>The converter\<close>

record conv_state = world +
  categories_in_json :: counter
  processed_images :: "string set"
  missing_images :: "string list"

text \<open>\<^verbatim>\<open>[[x/1280, y/720] for x, y in poly]\<close>; the first division that overflows raises.\<close>

fun poly_norm :: "(rat \<times> rat) list \<Rightarrow> py_error + rat list list" where
  "poly_norm [] = Inr []"
| "poly_norm ((x, y) # poly) =
     (case true_div x 1280 of
        Inl e \<Rightarrow> Inl e
      | Inr xn \<Rightarrow>
          (case true_div y 720 of
             Inl e \<Rightarrow> Inl e
           | Inr yn \<Rightarrow>
               (case poly_norm poly of
                  Inl e \<Rightarrow> Inl e
                | Inr rest \<Rightarrow> Inr ([xn, yn] # rest))))"

definition warning_line :: "string \<Rightarrow> string" where
  "warning_line cat =
     ''Warning: Category '' @ [CHR 0x27] @ cat @ [CHR 0x27] @
     '' found in JSON but not in category_mapping''"

text \<open>The line of one polygon: \<^verbatim>\<open>f"{category_id} {poly_str}\n"\<close>.\<close>

definition label_line :: "nat \<Rightarrow> rat list list \<Rightarrow> string" where
  "label_line category_id pn =
     (let poly_flat = concat pn;
          poly_str = py_join '' '' (map format_6f poly_flat)
      in str_nat category_id @ '' '' @ poly_str @ [CHR 0x0A])"

text \<open>The body of the loop over the labels of one record (lines 46 to 63).\<close>

definition label_body ::
  "category_mapping \<Rightarrow> string \<Rightarrow> label \<Rightarrow> conv_state \<Rightarrow> (conv_state, conv_state) outcome" where
  "label_body cm output_file lab s =
     (case poly2d lab of
        None \<Rightarrow> Normal s
      | Some polys \<Rightarrow>
          (case category lab of
             None \<Rightarrow> Raised (KeyError ''category'') s
           | Some cat \<Rightarrow>
               (let s1 = s\<lparr>categories_in_json := counter_incr (categories_in_json s) cat\<rparr>
                in case map_of cm cat of
                     None \<Rightarrow> Normal (print (warning_line cat) s1)
                   | Some category_id \<Rightarrow>
                       (case polys of
                          [] \<Rightarrow> Raised IndexError s1
                        | p # _ \<Rightarrow>
                            (let poly = vertices p
                             in if length poly < 3 then Normal s1
                                else (case poly_norm poly of
                                        Inl e \<Rightarrow> Raised e s1
                                      | Inr pn \<Rightarrow>
                                          Normal (file_write output_file
                                                    (label_line category_id pn) s1)))))))"

fun labels_loop ::
  "category_mapping \<Rightarrow> string \<Rightarrow> label list \<Rightarrow> conv_state \<Rightarrow> (conv_state, conv_state) outcome" where
  "labels_loop cm output_file [] s = Normal s"
| "labels_loop cm output_file (lab # labs) s =
     (case label_body cm output_file lab s of
        Raised e s' \<Rightarrow> Raised e s'
      | Normal s' \<Rightarrow> labels_loop cm output_file labs s')"

definition label_path :: "string \<Rightarrow> string \<Rightarrow> string" where
  "label_path output_dir image_file =
     os_path_join output_dir [fst (os_path_splitext image_file) @ ''.txt'']"

text \<open>
  The body of the loop over the records (lines 31 to 63). Only \<open>FileNotFoundError\<close> is
  caught around the copy.
\<close>

definition item_body ::
  "string \<Rightarrow> string \<Rightarrow> string \<Rightarrow> category_mapping \<Rightarrow> annotation_record \<Rightarrow> conv_state
   \<Rightarrow> (conv_state, conv_state) outcome" where
  "item_body output_dir image_src_dir image_dst_dir cm item s =
     (let image_file = name item;
          s1 = s\<lparr>processed_images := insert image_file (processed_images s)\<rparr>;
          output_file = label_path output_dir image_file;
          src_image_path = os_path_join image_src_dir [image_file];
          dst_image_path = os_path_join image_dst_dir [image_file]
      in case shutil_copy2 src_image_path dst_image_path s1 of
           Raised (FileNotFoundError _) s2 \<Rightarrow>
             Normal (s2\<lparr>missing_images := missing_images s2 @ [image_file]\<rparr>)
         | Raised e s2 \<Rightarrow> Raised e s2
         | Normal s2 \<Rightarrow> labels_loop cm output_file (labels item) (open_w output_file s2))"

fun items_loop ::
  "string \<Rightarrow> string \<Rightarrow> string \<Rightarrow> category_mapping \<Rightarrow> annotation_record list \<Rightarrow> conv_state
   \<Rightarrow> (conv_state, conv_state) outcome" where
  "items_loop output_dir image_src_dir image_dst_dir cm [] s = Normal s"
| "items_loop output_dir image_src_dir image_dst_dir cm (item # items) s =
     (case item_body output_dir image_src_dir image_dst_dir cm item s of
        Raised e s' \<Rightarrow> Raised e s'
      | Normal s' \<Rightarrow> items_loop output_dir image_src_dir image_dst_dir cm items s')"

text \<open>The report printed after the loop (lines 65 to 76).\<close>

definition statistics_lines :: "counter \<Rightarrow> string list" where
  "statistics_lines c =
     ([CHR 0x0A] @ ''Category statistics:'') #
     map (\<lambda>(cat, count). cat @ '': '' @ str_nat count @ '' instances'') c"

definition missing_lines :: "string list \<Rightarrow> string list" where
  "missing_lines missing =
     (if missing = [] then []
      else ([CHR 0x0A] @ ''Warning: '' @ str_nat (length missing) @ '' images were not found:'') #
           map (\<lambda>img. ''  '' @ img) (take 10 missing) @
           (if 10 < length missing
            then [''  ... and '' @ str_nat (length missing - 10) @ '' more.'']
            else []))"

definition bdd100k_to_yolov8 ::
  "string \<Rightarrow> string \<Rightarrow> string \<Rightarrow> string \<Rightarrow> category_mapping \<Rightarrow> world
   \<Rightarrow> (world \<times> nat \<times> nat \<times> counter, world) outcome" where
  "bdd100k_to_yolov8 input_json output_dir image_src_dir image_dst_dir cm w =
     (case load_json input_json w of
        Inl e \<Rightarrow> Raised e w
      | Inr data \<Rightarrow>
          (let s0 = world.extend w (conv_state.fields [] {} [])
           in case items_loop output_dir image_src_dir image_dst_dir cm data s0 of
                Raised e s \<Rightarrow> Raised e (world.truncate s)
              | Normal s \<Rightarrow>
                  (let s1 = print_all (statistics_lines (categories_in_json s)) s;
                       s2 = print_all (missing_lines (missing_images s1)) s1
                   in Normal (world.truncate s2, card (processed_images s2),
                              length (missing_images s2), categories_in_json s2))))"

subsection \<open>One split, and the entry point\<close>

type_synonym split_results = "nat \<times> nat \<times> nat \<times> category_mapping \<times> counter"

definition process_dataset ::
  "string \<Rightarrow> string \<Rightarrow> string \<Rightarrow> string \<Rightarrow> world \<Rightarrow> (world \<times> split_results, world) outcome" where
  "process_dataset base_dir output_base_dir split image_src_dir w =
     (let input_json = os_path_join base_dir
            [''labels'', ''sem_seg'', ''polygons'', ''sem_seg_'' @ split @ ''.json''];
          output_dir = os_path_join output_base_dir [''labels'', split];
          image_dst_dir = os_path_join output_base_dir [''images'', split]
      in case load_json input_json w of
           Inl e \<Rightarrow> Raised e w
         | Inr json_data \<Rightarrow>
             (let cm = update_category_mapping json_data;
                  w1 = print ([CHR 0x0A] @ ''Updated category mapping for '' @ split @ '' dataset:'') w;
                  w2 = print_all (map (\<lambda>(cat, idx). ''  '' @ cat @ '': '' @ str_nat idx) cm) w1;
                  initial_json_entries = length json_data;
                  w3 = print ([CHR 0x0A] @ ''Before processing '' @ split @ '' dataset:'') w2;
                  w4 = print (''Number of entries in '' @ split @ '' JSON file: '' @
                              str_nat initial_json_entries) w3
              in case bdd100k_to_yolov8 input_json output_dir image_src_dir image_dst_dir cm w4 of
                   Raised e w' \<Rightarrow> Raised e w'
                 | Normal (w5, processed_count, missing_count, category_instances) \<Rightarrow>
                     (let w6 = print ([CHR 0x0A] @ ''After processing '' @ split @ '' dataset:'') w5;
                          w7 = print (''Number of images processed and copied to YOLO '' @ split @
                                      '' folder: '' @ str_nat processed_count) w6;
                          w8 = print (''Number of label files created in YOLO '' @ split @
                                      '' folder: '' @ str_nat processed_count) w7;
                          w9 = print (''Number of missing images: '' @ str_nat missing_count) w8;
                          w10 = print ([CHR 0x0A] @ ''All categories and instances found in '' @
                                       split @ '' dataset:'') w9;
                          w11 = print_all
                                  (map (\<lambda>cat. ''  '' @ cat @ '': '' @
                                          str_nat (counter_get category_instances cat) @ '' instances'')
                                     (sort (map fst cm))) w10
                      in Normal (w11, processed_count, missing_count, initial_json_entries,
                                 cm, category_instances))))"

text \<open>The text of the manifest (lines 143 to 149).\<close>

definition data_yaml_content :: "string \<Rightarrow> category_mapping \<Rightarrow> string" where
  "data_yaml_content output_base_dir final_category_mapping =
     [CHR 0x0A] @ ''train: '' @ os_path_join output_base_dir [''images'', ''train''] @
     [CHR 0x0A] @ ''val: '' @ os_path_join output_base_dir [''images'', ''val''] @
     [CHR 0x0A, CHR 0x0A] @ ''nc: '' @ str_nat (length final_category_mapping) @
     [CHR 0x0A] @ ''names: '' @ repr_list (map fst final_category_mapping) @ [CHR 0x0A]"

definition summary_lines :: "string \<Rightarrow> split_results \<Rightarrow> string list" where
  "summary_lines title r =
     (case r of (processed_count, missing_count, initial_json_entries, cm, category_instances) \<Rightarrow>
        [title,
         ''  JSON entries: '' @ str_nat initial_json_entries,
         ''  Processed images: '' @ str_nat processed_count,
         ''  Missing images: '' @ str_nat missing_count])"

definition total_line :: "counter \<Rightarrow> counter \<Rightarrow> string \<Rightarrow> string" where
  "total_line train_counter val_counter cat =
     (let train_instances = counter_get train_counter cat;
          val_instances = counter_get val_counter cat;
          total_instances = train_instances + val_instances
      in ''  '' @ cat @ '': '' @ str_nat total_instances @ '' instances (Train: '' @
         str_nat train_instances @ '', Val: '' @ str_nat val_instances @ '')'')"

text \<open>
  The entry point (lines 112 to 154). The four paths are constants of the author's
  machine in the source; here they are arguments.
\<close>

definition main ::
  "string \<Rightarrow> string \<Rightarrow> string \<Rightarrow> string \<Rightarrow> world \<Rightarrow> (world, world) outcome" where
  "main base_dir output_base_dir train_images_src_dir val_images_src_dir w =
     (case process_dataset base_dir output_base_dir ''train'' train_images_src_dir w of
        Raised e w' \<Rightarrow> Raised e w'
      | Normal (w1, train_results) \<Rightarrow>
          (case process_dataset base_dir output_base_dir ''val'' val_images_src_dir w1 of
             Raised e w' \<Rightarrow> Raised e w'
           | Normal (w2, val_results) \<Rightarrow>
               (let w3 = print ([CHR 0x0A] @ ''Summary:'') w2;
                    w4 = print_all (summary_lines ''Train dataset:'' train_results) w3;
                    w5 = print_all (summary_lines ([CHR 0x0A] @ ''Validation dataset:'') val_results) w4;
                    final_category_mapping = fst (snd (snd (snd train_results)));
                    w6 = print ([CHR 0x0A] @ ''All categories and total instances in the dataset:'') w5;
                    w7 = print_all
                           (map (total_line (snd (snd (snd (snd train_results))))
                                            (snd (snd (snd (snd val_results)))))
                              (sort (map fst final_category_mapping))) w6;
                    yaml_path = os_path_join output_base_dir [''data.yaml''];
                    w8 = file_write yaml_path
                           (data_yaml_content output_base_dir final_category_mapping)
                           (open_w yaml_path w7)
                in Normal (print ([CHR 0x0A] @
                     ''Conversion complete. Images copied and data.yaml file has been generated.'')
                     w8))))"

subsection \<open>Specification-side notions and sample inputs\<close>

text \<open>
  The category set in the specification's words: every category name carried by a label
  of a record, whether or not the label has a polygon.
\<close>

definition all_categories :: "annotation_record list \<Rightarrow> string set" where
  "all_categories json_data = set (List.map_filter category (concat (map labels json_data)))"

definition cars_and_bikes :: "annotation_record list" where
  "cars_and_bikes =
     [\<lparr>name = ''a.jpg'', labels = [\<lparr>category = Some ''car'', poly2d = None\<rparr>,
                                   \<lparr>category = None, poly2d = None\<rparr>]\<rparr>,
      \<lparr>name = ''b.jpg'', labels = [\<lparr>category = Some ''bike'', poly2d = Some []\<rparr>,
                                   \<lparr>category = Some ''car'', poly2d = Some []\<rparr>]\<rparr>]"

text \<open>The state an outcome carries, whether the function returned or raised.\<close>

definition outcome_state :: "('s, 's) outcome \<Rightarrow> 's" where
  "outcome_state r = (case r of Normal s \<Rightarrow> s | Raised e s \<Rightarrow> s)"

definition is_copy :: "io_event \<Rightarrow> bool" where
  "is_copy ev = (case ev of CopyFile _ _ \<Rightarrow> True | _ \<Rightarrow> False)"

definition is_open :: "io_event \<Rightarrow> bool" where
  "is_open ev = (case ev of OpenWrite _ \<Rightarrow> True | _ \<Rightarrow> False)"

text \<open>
  The lines a label contributes to the text file, in the specification's words: one line
  when the label has a polygon list, a category that the mapping knows, and a first
  polygon of at least three vertices that normalises without overflow; none otherwise.
\<close>

definition label_out :: "category_mapping \<Rightarrow> label \<Rightarrow> string list" where
  "label_out cm lab =
     (case poly2d lab of
        None \<Rightarrow> []
      | Some polys \<Rightarrow>
          (case category lab of
             None \<Rightarrow> []
           | Some cat \<Rightarrow>
               (case map_of cm cat of
                  None \<Rightarrow> []
                | Some category_id \<Rightarrow>
                    (case polys of
                       [] \<Rightarrow> []
                     | p # _ \<Rightarrow>
                         if length (vertices p) < 3 then []
                         else (case poly_norm (vertices p) of
                                 Inl e \<Rightarrow> []
                               | Inr pn \<Rightarrow> [label_line category_id pn])))))"

text \<open>The contents of a file, empty when the file is not there.\<close>

definition file_text :: "(string \<rightharpoonup> string) \<Rightarrow> string \<Rightarrow> string" where
  "file_text fs path = (case fs path of None \<Rightarrow> [] | Some old \<Rightarrow> old)"

text \<open>Sample inputs: a polygon label, a world with one image, and the converter's initial state.\<close>

definition lab_car :: label where
  "lab_car = \<lparr>category = Some ''car'',
      poly2d = Some [\<lparr>vertices = [(640, 360), (0, 0), (1280, 720), (100, 200)]\<rparr>]\<rparr>"

definition sample_world :: "annotation_record list \<Rightarrow> world" where
  "sample_world data =
     \<lparr>json_files = [''in.json'' \<mapsto> data], files = [''src/a.jpg'' \<mapsto> ''IMG''],
      stdout = [], io_log = []\<rparr>"

definition sample_state :: conv_state where
  "sample_state = world.extend (sample_world []) (conv_state.fields [] {} [])"


text \<open>More sample labels: two vertices only, no category, an empty polygon list.\<close>

definition lab_short :: label where
  "lab_short = \<lparr>category = Some ''car'', poly2d = Some [\<lparr>vertices = [(640, 360), (0, 0)]\<rparr>]\<rparr>"

definition lab_no_category :: label where
  "lab_no_category = \<lparr>category = None, poly2d = Some [\<lparr>vertices = [(640, 360), (0, 0), (1280, 720)]\<rparr>]\<rparr>"

definition lab_empty_poly :: label where
  "lab_empty_poly = \<lparr>category = Some ''car'', poly2d = Some []\<rparr>"


section \<open>Properties\<close>

subsection \<open>The category indexer\<close>

lemma fold_add_label_category:
  "fold add_label_category labs A = A \<union> set (List.map_filter category labs)"
  by (induction labs arbitrary: A)
     (auto simp: add_label_category_def split: option.splits)

lemma fold_add_item_categories:
  "fold add_item_categories json_data A = A \<union> all_categories json_data"
proof (induction json_data arbitrary: A)
  case Nil
  show ?case by (simp add: all_categories_def)
next
  case (Cons item items)
  have "all_categories (item # items) =
        set (List.map_filter category (labels item)) \<union> all_categories items"
    by (simp add: all_categories_def List.map_filter_def)
  with Cons show ?case
    by (simp add: add_item_categories_def fold_add_label_category Un_assoc)
qed

lemma finite_all_categories: "finite (all_categories json_data)"
  by (simp add: all_categories_def)

lemma mapping_of_sorted:
  "update_category_mapping json_data =
     zip (sorted_list_of_set (all_categories json_data)) [0..<card (all_categories json_data)]"
proof -
  have "map (\<lambda>(idx, c). (c, idx)) (List.enumerate n xs) = zip xs [n..<n + length xs]"
    for xs :: "string list" and n
    by (induction xs arbitrary: n) (simp_all add: upt_rec)
  then show ?thesis
    by (simp add: update_category_mapping_def fold_add_item_categories Let_def)
qed

lemma all_categories_cars_and_bikes: "all_categories cars_and_bikes = {''car'', ''bike''}"
  by (auto simp: all_categories_def cars_and_bikes_def)

text \<open>
  Claim C3. The mapping built by the indexer lists exactly the category names carried by
  some label (with or without a polygon), in lexicographic order, and numbers them
  \<open>0, 1, ..., n - 1\<close> in that order: the keys are the sorted list of the category set,
  the ids are the list \<open>[0..<n]\<close>, and along the mapping names and ids increase together.
\<close>

theorem category_mapping_sorted_enumeration:
  "map fst (update_category_mapping json_data) = sorted_list_of_set (all_categories json_data)
   \<and> map snd (update_category_mapping json_data) = [0..<card (all_categories json_data)]
   \<and> sorted_wrt (\<lambda>a b. fst a < fst b \<and> snd a < snd b) (update_category_mapping json_data)"
proof -
  let ?xs = "sorted_list_of_set (all_categories json_data)"
  have len: "length ?xs = card (all_categories json_data)" by simp
  have m: "update_category_mapping json_data = zip ?xs [0..<length ?xs]"
    by (simp add: mapping_of_sorted)
  have "sorted_wrt (<) ?xs" by simp
  then have "sorted_wrt (\<lambda>a b. fst a < fst b \<and> snd a < snd b) (zip ?xs [0..<length ?xs])"
    by (auto simp: sorted_wrt_iff_nth_less)
  with m len show ?thesis by simp
qed

text \<open>The example of the claim: the categories car and bike give bike 0, car 1.\<close>

theorem category_mapping_cars_and_bikes:
  "update_category_mapping cars_and_bikes = [(''bike'', 0), (''car'', 1)]"
proof -
  have s: "sorted_list_of_set {''car'', ''bike''} = [''bike'', ''car'']"
    by (simp add: sorted_list_of_set.sorted_key_list_of_set_insert_remove)
  have c: "card {''car'', ''bike''} = 2" by simp
  have "map fst (update_category_mapping cars_and_bikes) = [''bike'', ''car'']
     \<and> map snd (update_category_mapping cars_and_bikes) = [0, 1]"
    using category_mapping_sorted_enumeration [of cars_and_bikes]
    by (simp add: all_categories_cars_and_bikes s c upt_rec)
  then show ?thesis
    by (metis (no_types) zip_map_fst_snd zip_Cons_Cons zip_Nil)
qed

subsection \<open>The loop over the labels of a record\<close>

lemma outcome_state_simps [simp]:
  "outcome_state (Normal s) = s" "outcome_state (Raised e s) = s"
  by (simp_all add: outcome_state_def)

lemma counter_get_incr: "counter_get (counter_incr c k) k = counter_get c k + 1"
  by (induction c) (auto simp: counter_get_def)

lemma label_body_Normal:
  assumes "label_body cm f lab s = Normal s'"
  shows "io_log s' = io_log s @ map (WriteText f) (label_out cm lab)"
    and "files s' = (if label_out cm lab = [] then files s
                     else (files s)(f \<mapsto> file_text (files s) f @ concat (label_out cm lab)))"
    and "missing_images s' = missing_images s"
    and "processed_images s' = processed_images s"
  using assms
  by (auto simp: label_body_def label_out_def file_write_def file_text_def print_def Let_def
           split: option.splits list.splits sum.splits if_splits)

lemma label_body_Raised:
  assumes "label_body cm f lab s = Raised e s'"
  shows "io_log s' = io_log s" and "files s' = files s" and "label_out cm lab = []"
    and "missing_images s' = missing_images s"
    and "processed_images s' = processed_images s"
  using assms
  by (auto simp: label_body_def label_out_def file_write_def file_text_def print_def Let_def
           split: option.splits list.splits sum.splits if_splits)

lemma labels_loop_Normal:
  assumes "labels_loop cm f labs s = Normal s'"
  shows "io_log s' = io_log s @ map (WriteText f) (concat (map (label_out cm) labs))
       \<and> missing_images s' = missing_images s
       \<and> processed_images s' = processed_images s
       \<and> (\<forall>g. g \<noteq> f \<longrightarrow> files s' g = files s g)
       \<and> (files s f \<noteq> None \<longrightarrow>
            files s' f = Some (file_text (files s) f @ concat (concat (map (label_out cm) labs))))"
  using assms
proof (induction labs arbitrary: s)
  case Nil
  then show ?case by (auto simp: file_text_def)
next
  case (Cons lab labs)
  from Cons.prems obtain s1 where b: "label_body cm f lab s = Normal s1"
    and l: "labels_loop cm f labs s1 = Normal s'"
    by (auto split: outcome.splits)
  note ih = Cons.IH [OF l]
  note lb = label_body_Normal [OF b]
  show ?case using ih lb
    by (auto simp: file_text_def split: if_splits)
qed

subsection \<open>The loop over the records\<close>

lemma item_body_missing:
  assumes "files s (os_path_join sd [name item]) = None"
  shows "item_body od sd dd cm item s =
           Normal (s\<lparr>processed_images := insert (name item) (processed_images s),
                     missing_images := missing_images s @ [name item]\<rparr>)"
  using assms by (simp add: item_body_def shutil_copy2_def Let_def)

lemma item_body_same_file:
  assumes "files s (os_path_join sd [name item]) = Some bytes"
    and "os_path_join sd [name item] = os_path_join dd [name item]"
  shows "item_body od sd dd cm item s =
           Raised SameFileError (s\<lparr>processed_images := insert (name item) (processed_images s)\<rparr>)"
  using assms by (simp add: item_body_def shutil_copy2_def Let_def)

lemma item_body_copied:
  assumes "files s (os_path_join sd [name item]) = Some bytes"
    and "os_path_join sd [name item] \<noteq> os_path_join dd [name item]"
  shows "item_body od sd dd cm item s =
           labels_loop cm (label_path od (name item)) (labels item)
             (open_w (label_path od (name item))
                (s\<lparr>processed_images := insert (name item) (processed_images s),
                   files := (files s)(os_path_join dd [name item] \<mapsto> bytes),
                   io_log := io_log s @ [CopyFile (os_path_join sd [name item])
                                                  (os_path_join dd [name item])]\<rparr>))"
  using assms by (simp add: item_body_def shutil_copy2_def Let_def)

lemma labels_loop_any:
  "filter is_copy (io_log (outcome_state (labels_loop cm f labs s))) = filter is_copy (io_log s)
   \<and> filter is_open (io_log (outcome_state (labels_loop cm f labs s))) = filter is_open (io_log s)
   \<and> missing_images (outcome_state (labels_loop cm f labs s)) = missing_images s
   \<and> processed_images (outcome_state (labels_loop cm f labs s)) = processed_images s"
proof (induction labs arbitrary: s)
  case Nil
  show ?case by simp
next
  case (Cons lab labs)
  show ?case
  proof (cases "label_body cm f lab s")
    case (Normal s1)
    from label_body_Normal [OF Normal] Cons.IH [of s1] Normal show ?thesis
      by (auto simp: is_copy_def is_open_def split: if_splits)
  next
    case (Raised e s1)
    from label_body_Raised [OF Raised] Raised show ?thesis by simp
  qed
qed


lemma items_loop_counts:
  assumes "items_loop od sd dd cm items s = Normal s'"
  shows "length (filter is_copy (io_log s')) + length (missing_images s') =
           length (filter is_copy (io_log s)) + length (missing_images s) + length items
       \<and> length (filter is_open (io_log s')) + length (missing_images s') =
           length (filter is_open (io_log s)) + length (missing_images s) + length items
       \<and> processed_images s' = processed_images s \<union> name ` set items
       \<and> length (missing_images s) \<le> length (missing_images s')"
  using assms
proof (induction items arbitrary: s)
  case Nil
  then show ?case by simp
next
  case (Cons item items)
  from Cons.prems obtain s1 where b: "item_body od sd dd cm item s = Normal s1"
    and l: "items_loop od sd dd cm items s1 = Normal s'"
    by (auto split: outcome.splits)
  note ih = Cons.IH [OF l]
  show ?case
  proof (cases "files s (os_path_join sd [name item])")
    case None
    from item_body_missing [OF None, of od dd cm] b
    have "s1 = s\<lparr>processed_images := insert (name item) (processed_images s),
                   missing_images := missing_images s @ [name item]\<rparr>" by simp
    with ih show ?thesis by auto
  next
    case (Some bytes)
    show ?thesis
    proof (cases "os_path_join sd [name item] = os_path_join dd [name item]")
      case True
      from item_body_same_file [OF Some True, of od cm] b show ?thesis by simp
    next
      case False
      let ?t = "open_w (label_path od (name item))
                (s\<lparr>processed_images := insert (name item) (processed_images s),
                   files := (files s)(os_path_join dd [name item] \<mapsto> bytes),
                   io_log := io_log s @ [CopyFile (os_path_join sd [name item])
                                                  (os_path_join dd [name item])]\<rparr>)"
      from item_body_copied [OF Some False, of od cm] b
      have e: "labels_loop cm (label_path od (name item)) (labels item) ?t = Normal s1" by simp
      from labels_loop_any [of cm "label_path od (name item)" "labels item" ?t] e
      have "filter is_copy (io_log s1) = filter is_copy (io_log ?t)"
        and "filter is_open (io_log s1) = filter is_open (io_log ?t)"
        and "missing_images s1 = missing_images ?t"
        and "processed_images s1 = processed_images ?t"
        by simp_all
      then have "length (filter is_copy (io_log s1)) = length (filter is_copy (io_log s)) + 1"
        and "length (filter is_open (io_log s1)) = length (filter is_open (io_log s)) + 1"
        and "missing_images s1 = missing_images s"
        and "processed_images s1 = insert (name item) (processed_images s)"
        by (simp_all add: open_w_def is_copy_def is_open_def)
      with ih show ?thesis by auto
    qed
  qed
qed

subsection \<open>Printing, and evaluation on the sample inputs\<close>

lemma print_all_fields [simp]:
  "io_log (print_all ls s) = io_log s"
  "files (print_all ls s) = files s"
  "json_files (print_all ls s) = json_files s"
  by (induction ls arbitrary: s) (simp_all add: print_all_def print_def)

lemma print_all_conv_fields [simp]:
  "missing_images (print_all ls s) = missing_images s"
  "processed_images (print_all ls s) = processed_images s"
  "categories_in_json (print_all ls s) = categories_in_json s"
  by (induction ls arbitrary: s) (simp_all add: print_all_def print_def)

lemma stdout_print_all [simp]: "stdout (print_all ls s) = stdout s @ ls"
  by (induction ls arbitrary: s) (simp_all add: print_all_def print_def)

lemma sample_paths:
  "label_path ''out'' ''a.jpg'' = ''out/a.txt''"
  "label_path ''out'' ''b.jpg'' = ''out/b.txt''"
  "os_path_join ''src'' [''a.jpg''] = ''src/a.jpg''"
  "os_path_join ''dst'' [''a.jpg''] = ''dst/a.jpg''"
  "os_path_join ''src'' [''b.jpg''] = ''src/b.jpg''"
  "os_path_join ''dst'' [''b.jpg''] = ''dst/b.jpg''"
  by (simp_all add: label_path_def os_path_join_def join_step_def os_path_splitext_def rfind_def)

lemma str_nat_small:
  "str_nat 0 = ''0''" "str_nat 1 = ''1''" "str_nat (Suc 0) = ''1''" "str_nat 2 = ''2''"
  "str_nat 3 = ''3''"
  by (simp_all add: str_nat.simps digit_char_def)

lemmas run_defs = bdd100k_to_yolov8_def sample_world_def load_json_def item_body_def
      sample_paths shutil_copy2_def open_w_def label_body_def
      print_def print_all_def statistics_lines_def missing_lines_def str_nat_small
      world.extend_def world.truncate_def conv_state.fields_def Let_def

subsection \<open>A polygon label whose category the mapping does not know\<close>

text \<open>
  Claim C1, as the code has it. When a label has a \<^verbatim>\<open>poly2d\<close> field and its category is
  absent from the mapping, the converter prints the warning, writes nothing to the text
  file (no file operation at all), and goes on with the record's other labels; the
  per-category instance counter of that category has been incremented by one before the
  mapping was consulted, so the skipped label does count in the statistics.
\<close>

theorem unmapped_category_is_warned_and_counted:
  assumes "poly2d lab = Some polys" and "category lab = Some cat" and "map_of cm cat = None"
  shows "\<exists>s'. label_body cm f lab s = Normal s'
           \<and> labels_loop cm f (lab # labs) s = labels_loop cm f labs s'
           \<and> files s' = files s
           \<and> io_log s' = io_log s
           \<and> stdout s' = stdout s @ [warning_line cat]
           \<and> counter_get (categories_in_json s') cat = counter_get (categories_in_json s) cat + 1"
  using assms by (simp add: label_body_def print_def counter_get_incr)

text \<open>The theorem at the sample label, with the empty mapping.\<close>

theorem unmapped_category_sample:
  "poly2d lab_car = Some [\<lparr>vertices = [(640, 360), (0, 0), (1280, 720), (100, 200)]\<rparr>]
   \<and> category lab_car = Some ''car''
   \<and> map_of ([] :: category_mapping) ''car'' = None
   \<and> (\<exists>s'. label_body [] ''out/a.txt'' lab_car sample_state = Normal s'
           \<and> labels_loop [] ''out/a.txt'' [lab_car] sample_state = labels_loop [] ''out/a.txt'' [] s'
           \<and> files s' = files sample_state
           \<and> io_log s' = io_log sample_state
           \<and> stdout s' = stdout sample_state @ [warning_line ''car'']
           \<and> counter_get (categories_in_json s') ''car'' =
               counter_get (categories_in_json sample_state) ''car'' + 1)"
proof -
  have a: "poly2d lab_car = Some [\<lparr>vertices = [(640, 360), (0, 0), (1280, 720), (100, 200)]\<rparr>]"
    and b: "category lab_car = Some ''car''"
    and c: "map_of ([] :: category_mapping) ''car'' = None"
    by (simp_all add: lab_car_def)
  from unmapped_category_is_warned_and_counted
    [OF a b c, where f = "''out/a.txt''" and labs = "[]" and s = sample_state] a b c
  show ?thesis by simp
qed

text \<open>
  Against claim C1 as stated: one record whose image is there, with one polygon label of
  category car, converted with the empty mapping. The label is skipped with the warning
  and the text file stays empty, yet the returned statistics count one car.
\<close>

theorem unmapped_category_counted_in_statistics:
  "bdd100k_to_yolov8 ''in.json'' ''out'' ''src'' ''dst'' []
     (sample_world [\<lparr>name = ''a.jpg'', labels = [lab_car]\<rparr>]) =
     Normal (\<lparr>json_files = [''in.json'' \<mapsto> [\<lparr>name = ''a.jpg'', labels = [lab_car]\<rparr>]],
              files = [''src/a.jpg'' \<mapsto> ''IMG'', ''dst/a.jpg'' \<mapsto> ''IMG'', ''out/a.txt'' \<mapsto> []],
              stdout = [warning_line ''car'', [CHR 0x0A] @ ''Category statistics:'', ''car: 1 instances''],
              io_log = [CopyFile ''src/a.jpg'' ''dst/a.jpg'', OpenWrite ''out/a.txt'']\<rparr>,
             1, 0, [(''car'', 1)])"
  by (simp add: run_defs lab_car_def)

subsection \<open>A record whose image is missing\<close>

text \<open>
  Claim C2, at the failing input: one record, \<^verbatim>\<open>b.jpg\<close>, whose image is not in the source
  directory. The name goes to the missing list, no file is written and nothing is counted
  per category, but the first component of the result, the number of processed images,
  is 1: the name entered \<open>processed_images\<close> before the copy was tried.
\<close>

theorem missing_image_is_counted_as_processed:
  "bdd100k_to_yolov8 ''in.json'' ''out'' ''src'' ''dst'' [(''car'', 0)]
     (sample_world [\<lparr>name = ''b.jpg'', labels = [lab_car]\<rparr>]) =
     Normal (\<lparr>json_files = [''in.json'' \<mapsto> [\<lparr>name = ''b.jpg'', labels = [lab_car]\<rparr>]],
              files = [''src/a.jpg'' \<mapsto> ''IMG''],
              stdout = [[CHR 0x0A] @ ''Category statistics:'',
                        [CHR 0x0A] @ ''Warning: 1 images were not found:'', ''  b.jpg''],
              io_log = []\<rparr>,
             1, 1, [])"
  by (simp add: run_defs)

subsection \<open>How many files a run writes\<close>

text \<open>
  Claim C7, as the code has it. In a run that returns, with \<open>m\<close> the returned number of
  missing images, the converter opens one text file for writing and copies one image for
  every record whose image it found: the number of records less \<open>m\<close> of each. No text
  file is opened for a record whose image is missing.
\<close>

theorem one_text_file_and_one_copy_per_found_image:
  assumes "json_files w input_json = Some data"
    and "bdd100k_to_yolov8 input_json od sd dd cm w = Normal (w', n, m, c)"
  shows "length (filter is_open (io_log w')) + m = length (filter is_open (io_log w)) + length data
       \<and> length (filter is_copy (io_log w')) + m = length (filter is_copy (io_log w)) + length data"
proof -
  let ?s0 = "world.extend w (conv_state.fields [] {} [])"
  from assms obtain s where l: "items_loop od sd dd cm data ?s0 = Normal s"
    and w': "w' = world.truncate (print_all (missing_lines (missing_images s))
                    (print_all (statistics_lines (categories_in_json s)) s))"
    and m: "m = length (missing_images s)"
    by (auto simp: bdd100k_to_yolov8_def load_json_def Let_def split: outcome.splits)
  have io: "io_log w' = io_log s" by (simp add: w' world.truncate_def)
  have s0: "io_log ?s0 = io_log w" "missing_images ?s0 = []"
    by (simp_all add: world.extend_def conv_state.fields_def)
  from items_loop_counts [OF l] io m s0 show ?thesis by simp
qed

text \<open>The theorem at a run over one record whose image is there.\<close>

theorem one_text_file_and_one_copy_sample:
  "json_files (sample_world [\<lparr>name = ''a.jpg'', labels = []\<rparr>]) ''in.json'' =
     Some [\<lparr>name = ''a.jpg'', labels = []\<rparr>]
   \<and> (\<exists>w'. bdd100k_to_yolov8 ''in.json'' ''out'' ''src'' ''dst'' []
              (sample_world [\<lparr>name = ''a.jpg'', labels = []\<rparr>]) = Normal (w', 1, 0, [])
         \<and> length (filter is_open (io_log w')) = 1
         \<and> length (filter is_copy (io_log w')) = 1)"
proof -
  let ?w = "sample_world [\<lparr>name = ''a.jpg'', labels = []\<rparr>]"
  let ?w' = "\<lparr>json_files = [''in.json'' \<mapsto> [\<lparr>name = ''a.jpg'', labels = []\<rparr>]],
              files = [''src/a.jpg'' \<mapsto> ''IMG'', ''dst/a.jpg'' \<mapsto> ''IMG'', ''out/a.txt'' \<mapsto> []],
              stdout = [[CHR 0x0A] @ ''Category statistics:''],
              io_log = [CopyFile ''src/a.jpg'' ''dst/a.jpg'', OpenWrite ''out/a.txt'']\<rparr>"
  have j: "json_files ?w ''in.json'' = Some [\<lparr>name = ''a.jpg'', labels = []\<rparr>]"
    by (simp add: sample_world_def)
  have r: "bdd100k_to_yolov8 ''in.json'' ''out'' ''src'' ''dst'' [] ?w = Normal (?w', 1, 0, [])"
    by (simp add: run_defs)
  have "io_log ?w = []" by (simp add: sample_world_def)
  with one_text_file_and_one_copy_per_found_image [OF j r] j r show ?thesis by simp
qed

text \<open>
  Against claim C7 as stated: two records, the image of the first is there and that of
  the second is missing. The run returns \<open>N = 2\<close> and \<open>missing = 1\<close>, and it has opened one
  text file, not two.
\<close>

theorem no_text_file_for_a_missing_image:
  "bdd100k_to_yolov8 ''in.json'' ''out'' ''src'' ''dst'' []
     (sample_world [\<lparr>name = ''a.jpg'', labels = []\<rparr>, \<lparr>name = ''b.jpg'', labels = []\<rparr>]) =
     Normal (\<lparr>json_files = [''in.json'' \<mapsto> [\<lparr>name = ''a.jpg'', labels = []\<rparr>, \<lparr>name = ''b.jpg'', labels = []\<rparr>]],
              files = [''src/a.jpg'' \<mapsto> ''IMG'', ''dst/a.jpg'' \<mapsto> ''IMG'', ''out/a.txt'' \<mapsto> []],
              stdout = [[CHR 0x0A] @ ''Category statistics:'',
                        [CHR 0x0A] @ ''Warning: 1 images were not found:'', ''  b.jpg''],
              io_log = [CopyFile ''src/a.jpg'' ''dst/a.jpg'', OpenWrite ''out/a.txt'']\<rparr>,
             2, 1, [])"
  by (simp add: run_defs)

subsection \<open>What a returning loop says about each label\<close>



lemma labels_loop_append:
  "labels_loop cm f (pre @ post) s =
     (case labels_loop cm f pre s of
        Raised e s' \<Rightarrow> Raised e s'
      | Normal s' \<Rightarrow> labels_loop cm f post s')"
  by (induction pre arbitrary: s) (auto split: outcome.splits)

lemma labels_loop_Normal_each:
  assumes "labels_loop cm f labs s = Normal s'" and "lab \<in> set labs"
  shows "\<exists>s1 s2. label_body cm f lab s1 = Normal s2"
  using assms
proof (induction labs arbitrary: s)
  case Nil
  then show ?case by simp
next
  case (Cons l labs)
  from Cons.prems(1) obtain s1 where b: "label_body cm f l s = Normal s1"
    and r: "labels_loop cm f labs s1 = Normal s'"
    by (auto split: outcome.splits)
  from Cons.prems(2) have "lab = l \<or> lab \<in> set labs" by simp
  then show ?case
  proof
    assume "lab = l"
    with b show ?thesis by blast
  next
    assume "lab \<in> set labs"
    from Cons.IH [OF r this] show ?thesis .
  qed
qed

lemma label_body_Normal_needs:
  assumes "label_body cm f lab s = Normal s'"
  shows "poly2d lab \<noteq> None \<longrightarrow> category lab \<noteq> None"
    and "category lab = Some cat \<and> map_of cm cat = Some cid \<longrightarrow> poly2d lab \<noteq> Some []"
  using assms
  by (auto simp: label_body_def Let_def split: option.splits list.splits if_splits sum.splits)

lemma items_loop_Normal_each:
  assumes "items_loop od sd dd cm items s = Normal s'"
    and "missing_images s' = missing_images s"
    and "item \<in> set items"
  shows "\<exists>t t'. labels_loop cm (label_path od (name item)) (labels item) t = Normal t'"
  using assms
proof (induction items arbitrary: s)
  case Nil
  then show ?case by simp
next
  case (Cons i items)
  from Cons.prems(1) obtain s1 where b: "item_body od sd dd cm i s = Normal s1"
    and r: "items_loop od sd dd cm items s1 = Normal s'"
    by (auto split: outcome.splits)
  from items_loop_counts [OF r] have mono: "length (missing_images s1) \<le> length (missing_images s')"
    by simp
  show ?case
  proof (cases "files s (os_path_join sd [name i])")
    case None
    from item_body_missing [OF None, of od dd cm] b
    have "length (missing_images s1) = length (missing_images s) + 1" by auto
    with mono Cons.prems(2) show ?thesis by simp
  next
    case (Some bytes)
    show ?thesis
    proof (cases "os_path_join sd [name i] = os_path_join dd [name i]")
      case True
      from item_body_same_file [OF Some True, of od cm] b show ?thesis by simp
    next
      case False
      let ?t = "open_w (label_path od (name i))
                (s\<lparr>processed_images := insert (name i) (processed_images s),
                   files := (files s)(os_path_join dd [name i] \<mapsto> bytes),
                   io_log := io_log s @ [CopyFile (os_path_join sd [name i])
                                                  (os_path_join dd [name i])]\<rparr>)"
      from item_body_copied [OF Some False, of od cm] b
      have e: "labels_loop cm (label_path od (name i)) (labels i) ?t = Normal s1" by simp
      from labels_loop_Normal [OF e] have m1: "missing_images s1 = missing_images s"
        by (simp add: open_w_def)
      from Cons.prems(3) have "item = i \<or> item \<in> set items" by simp
      then show ?thesis
      proof
        assume "item = i"
        with e show ?thesis by blast
      next
        assume "item \<in> set items"
        from Cons.IH [OF r _ this] m1 Cons.prems(2) show ?thesis by simp
      qed
    qed
  qed
qed


lemma item_body_Normal_labels:
  assumes "files s (os_path_join sd [name item]) = Some bytes"
    and "item_body od sd dd cm item s = Normal s'"
  shows "\<exists>t. labels_loop cm (label_path od (name item)) (labels item) t = Normal s'"
proof (cases "os_path_join sd [name item] = os_path_join dd [name item]")
  case True
  from item_body_same_file [OF assms(1) True, of od cm] assms(2) show ?thesis by simp
next
  case False
  from item_body_copied [OF assms(1) False, of od cm] assms(2) show ?thesis by auto
qed

lemma run_Normal_no_missing:
  assumes "json_files w input_json = Some data"
    and "bdd100k_to_yolov8 input_json od sd dd cm w = Normal (w', n, 0, c)"
    and "item \<in> set data" and "lab \<in> set (labels item)"
  shows "\<exists>f s1 s2. label_body cm f lab s1 = Normal s2"
proof -
  let ?s0 = "world.extend w (conv_state.fields [] {} [])"
  from assms(1,2) obtain s where l: "items_loop od sd dd cm data ?s0 = Normal s"
    and m: "length (missing_images s) = 0"
    by (auto simp: bdd100k_to_yolov8_def load_json_def Let_def split: outcome.splits)
  have "missing_images ?s0 = []" by (simp add: world.extend_def conv_state.fields_def)
  with m have "missing_images s = missing_images ?s0" by simp
  from items_loop_Normal_each [OF l this assms(3)]
  obtain t t' where "labels_loop cm (label_path od (name item)) (labels item) t = Normal t'"
    by blast
  from labels_loop_Normal_each [OF this assms(4)] show ?thesis by blast
qed

subsection \<open>The text file of a record whose image was copied\<close>



subsection \<open>Labels the converter cannot read\<close>

text \<open>
  Claim C8. There is an input (one record whose image is there, with a polygon label that
  has no category) on which the converter raises \<open>KeyError\<close>; in general, once the labels
  before it have been processed, a label with a \<^verbatim>\<open>poly2d\<close> field and no category field
  makes the loop raise \<open>KeyError\<close>. Conversely a record whose image was copied is only
  processed without error when each of its labels that has a \<^verbatim>\<open>poly2d\<close> field has a
  category field, and so is every record of a run that returns with no image missing.
\<close>

theorem polygon_label_without_category_raises_KeyError:
  "bdd100k_to_yolov8 ''in.json'' ''out'' ''src'' ''dst'' [(''car'', 0)]
     (sample_world [\<lparr>name = ''a.jpg'', labels = [lab_no_category]\<rparr>]) =
     Raised (KeyError ''category'')
       \<lparr>json_files = [''in.json'' \<mapsto> [\<lparr>name = ''a.jpg'', labels = [lab_no_category]\<rparr>]],
        files = [''src/a.jpg'' \<mapsto> ''IMG'', ''dst/a.jpg'' \<mapsto> ''IMG'', ''out/a.txt'' \<mapsto> []],
        stdout = [],
        io_log = [CopyFile ''src/a.jpg'' ''dst/a.jpg'', OpenWrite ''out/a.txt'']\<rparr>
   \<and> (labels_loop cm f pre s = Normal s1 \<and> poly2d lab \<noteq> None \<and> category lab = None \<longrightarrow>
        labels_loop cm f (pre @ lab # post) s = Raised (KeyError ''category'') s1)
   \<and> (files t (os_path_join sd [name item]) = Some bytes
        \<and> item_body od sd dd cm item t = Normal t' \<longrightarrow>
        (\<forall>l\<in>set (labels item). poly2d l \<noteq> None \<longrightarrow> category l \<noteq> None))
   \<and> (json_files w input_json = Some data
        \<and> bdd100k_to_yolov8 input_json od sd dd cm w = Normal (w', n, 0, c) \<longrightarrow>
        (\<forall>item\<in>set data. \<forall>l\<in>set (labels item). poly2d l \<noteq> None \<longrightarrow> category l \<noteq> None))"
proof -
  have a: "bdd100k_to_yolov8 ''in.json'' ''out'' ''src'' ''dst'' [(''car'', 0)]
     (sample_world [\<lparr>name = ''a.jpg'', labels = [lab_no_category]\<rparr>]) =
     Raised (KeyError ''category'')
       \<lparr>json_files = [''in.json'' \<mapsto> [\<lparr>name = ''a.jpg'', labels = [lab_no_category]\<rparr>]],
        files = [''src/a.jpg'' \<mapsto> ''IMG'', ''dst/a.jpg'' \<mapsto> ''IMG'', ''out/a.txt'' \<mapsto> []],
        stdout = [],
        io_log = [CopyFile ''src/a.jpg'' ''dst/a.jpg'', OpenWrite ''out/a.txt'']\<rparr>"
    by (simp add: run_defs lab_no_category_def)
  have b: "labels_loop cm f (pre @ lab # post) s = Raised (KeyError ''category'') s1"
    if "labels_loop cm f pre s = Normal s1 \<and> poly2d lab \<noteq> None \<and> category lab = None"
    using that by (auto simp: labels_loop_append label_body_def)
  have c: "\<forall>l\<in>set (labels item). poly2d l \<noteq> None \<longrightarrow> category l \<noteq> None"
    if h: "files t (os_path_join sd [name item]) = Some bytes
        \<and> item_body od sd dd cm item t = Normal t'"
  proof
    fix l assume l: "l \<in> set (labels item)"
    from h item_body_Normal_labels [of t sd item bytes od dd cm t']
    obtain u where "labels_loop cm (label_path od (name item)) (labels item) u = Normal t'"
      by blast
    from labels_loop_Normal_each [OF this l] obtain s1 s2
      where "label_body cm (label_path od (name item)) l s1 = Normal s2" by blast
    from label_body_Normal_needs(1) [OF this] show "poly2d l \<noteq> None \<longrightarrow> category l \<noteq> None" .
  qed
  have d: "\<forall>item\<in>set data. \<forall>l\<in>set (labels item). poly2d l \<noteq> None \<longrightarrow> category l \<noteq> None"
    if h: "json_files w input_json = Some data
        \<and> bdd100k_to_yolov8 input_json od sd dd cm w = Normal (w', n, 0, c)"
  proof (intro ballI)
    fix item l assume i: "item \<in> set data" and l: "l \<in> set (labels item)"
    from h run_Normal_no_missing [of w input_json data od sd dd cm w' n c item l] i l
    obtain g s1 s2 where "label_body cm g l s1 = Normal s2" by blast
    from label_body_Normal_needs(1) [OF this] show "poly2d l \<noteq> None \<longrightarrow> category l \<noteq> None" .
  qed
  from a b c d show ?thesis by blast
qed


text \<open>The theorem at the sample labels.\<close>

theorem polygon_label_without_category_sample:
  "labels_loop [(''car'', 0)] ''out/a.txt'' [] sample_state = Normal sample_state
   \<and> poly2d lab_no_category \<noteq> None \<and> category lab_no_category = None
   \<and> labels_loop [(''car'', 0)] ''out/a.txt'' [lab_no_category] sample_state =
       Raised (KeyError ''category'') sample_state
   \<and> files sample_state (os_path_join ''src'' [name \<lparr>name = ''a.jpg'', labels = [lab_short]\<rparr>]) =
       Some ''IMG''
   \<and> item_body ''out'' ''src'' ''dst'' [(''car'', 0)] \<lparr>name = ''a.jpg'', labels = [lab_short]\<rparr>
         sample_state =
       Normal \<lparr>json_files = [''in.json'' \<mapsto> []],
               files = [''src/a.jpg'' \<mapsto> ''IMG'', ''dst/a.jpg'' \<mapsto> ''IMG'', ''out/a.txt'' \<mapsto> []],
               stdout = [],
               io_log = [CopyFile ''src/a.jpg'' ''dst/a.jpg'', OpenWrite ''out/a.txt''],
               categories_in_json = [(''car'', 1)], processed_images = {''a.jpg''},
               missing_images = []\<rparr>
   \<and> json_files (sample_world [\<lparr>name = ''a.jpg'', labels = [lab_short]\<rparr>]) ''in.json'' =
       Some [\<lparr>name = ''a.jpg'', labels = [lab_short]\<rparr>]
   \<and> bdd100k_to_yolov8 ''in.json'' ''out'' ''src'' ''dst'' [(''car'', 0)]
         (sample_world [\<lparr>name = ''a.jpg'', labels = [lab_short]\<rparr>]) =
       Normal (\<lparr>json_files = [''in.json'' \<mapsto> [\<lparr>name = ''a.jpg'', labels = [lab_short]\<rparr>]],
                files = [''src/a.jpg'' \<mapsto> ''IMG'', ''dst/a.jpg'' \<mapsto> ''IMG'', ''out/a.txt'' \<mapsto> []],
                stdout = [[CHR 0x0A] @ ''Category statistics:'', ''car: 1 instances''],
                io_log = [CopyFile ''src/a.jpg'' ''dst/a.jpg'', OpenWrite ''out/a.txt'']\<rparr>,
               1, 0, [(''car'', 1)])
   \<and> poly2d lab_short \<noteq> None \<and> category lab_short \<noteq> None"
proof -
  let ?item = "\<lparr>name = ''a.jpg'', labels = [lab_short]\<rparr>"
  let ?t' = "\<lparr>json_files = [''in.json'' \<mapsto> []],
               files = [''src/a.jpg'' \<mapsto> ''IMG'', ''dst/a.jpg'' \<mapsto> ''IMG'', ''out/a.txt'' \<mapsto> []],
               stdout = [],
               io_log = [CopyFile ''src/a.jpg'' ''dst/a.jpg'', OpenWrite ''out/a.txt''],
               categories_in_json = [(''car'', 1)], processed_images = {''a.jpg''},
               missing_images = []\<rparr>"
  let ?w' = "\<lparr>json_files = [''in.json'' \<mapsto> [?item]],
                files = [''src/a.jpg'' \<mapsto> ''IMG'', ''dst/a.jpg'' \<mapsto> ''IMG'', ''out/a.txt'' \<mapsto> []],
                stdout = [[CHR 0x0A] @ ''Category statistics:'', ''car: 1 instances''],
                io_log = [CopyFile ''src/a.jpg'' ''dst/a.jpg'', OpenWrite ''out/a.txt'']\<rparr>"
  have h1: "labels_loop [(''car'', 0)] ''out/a.txt'' [] sample_state = Normal sample_state
            \<and> poly2d lab_no_category \<noteq> None \<and> category lab_no_category = None"
    by (simp add: lab_no_category_def)
  have h2: "files sample_state (os_path_join ''src'' [name ?item]) = Some ''IMG''
            \<and> item_body ''out'' ''src'' ''dst'' [(''car'', 0)] ?item sample_state = Normal ?t'"
    by (simp add: sample_state_def run_defs lab_short_def)
  have h3: "json_files (sample_world [?item]) ''in.json'' = Some [?item]
            \<and> bdd100k_to_yolov8 ''in.json'' ''out'' ''src'' ''dst'' [(''car'', 0)] (sample_world [?item]) =
                Normal (?w', 1, 0, [(''car'', 1)])"
    by (simp add: run_defs lab_short_def)
  have h4: "poly2d lab_short \<noteq> None" by (simp add: lab_short_def)
  from polygon_label_without_category_raises_KeyError
    [where cm = "[(''car'', 0)]" and f = "''out/a.txt''" and pre = "[]" and s = sample_state
       and ?s1.0 = sample_state and lab = lab_no_category and post = "[]"
       and t = sample_state and sd = "''src''" and item = ?item and bytes = "''IMG''"
       and od = "''out''" and dd = "''dst''" and t' = ?t'
       and w = "sample_world [?item]" and input_json = "''in.json''" and data = "[?item]"
       and w' = ?w' and n = 1 and c = "[(''car'', 1)]"]
    h1 h2 h3 h4
  show ?thesis by simp
qed

text \<open>
  Claim C9, as the code has it. There is an input (one record whose image is there, with
  a label of a mapped category whose \<^verbatim>\<open>poly2d\<close> list is empty) on which the converter
  raises \<open>IndexError\<close>; in general such a label makes the loop raise \<open>IndexError\<close>,
  after its category has been counted. Conversely a record whose image was copied is only
  processed without error when the \<^verbatim>\<open>poly2d\<close> list of each label whose category is in
  the mapping is not empty, and so is every record of a run that returns with no image
  missing. A label whose category is not in the mapping is skipped before its polygon
  list is read.
\<close>

theorem empty_polygon_list_raises_IndexError_when_category_mapped:
  "bdd100k_to_yolov8 ''in.json'' ''out'' ''src'' ''dst'' [(''car'', 0)]
     (sample_world [\<lparr>name = ''a.jpg'', labels = [lab_empty_poly]\<rparr>]) =
     Raised IndexError
       \<lparr>json_files = [''in.json'' \<mapsto> [\<lparr>name = ''a.jpg'', labels = [lab_empty_poly]\<rparr>]],
        files = [''src/a.jpg'' \<mapsto> ''IMG'', ''dst/a.jpg'' \<mapsto> ''IMG'', ''out/a.txt'' \<mapsto> []],
        stdout = [],
        io_log = [CopyFile ''src/a.jpg'' ''dst/a.jpg'', OpenWrite ''out/a.txt'']\<rparr>
   \<and> (labels_loop cm f pre s = Normal s1 \<and> poly2d lab = Some []
        \<and> category lab = Some cat \<and> map_of cm cat = Some cid \<longrightarrow>
        labels_loop cm f (pre @ lab # post) s =
          Raised IndexError (s1\<lparr>categories_in_json := counter_incr (categories_in_json s1) cat\<rparr>))
   \<and> (files t (os_path_join sd [name item]) = Some bytes
        \<and> item_body od sd dd cm item t = Normal t' \<longrightarrow>
        (\<forall>l\<in>set (labels item). \<forall>k. category l = Some k \<and> map_of cm k \<noteq> None \<longrightarrow> poly2d l \<noteq> Some []))
   \<and> (json_files w input_json = Some data
        \<and> bdd100k_to_yolov8 input_json od sd dd cm w = Normal (w', n, 0, c) \<longrightarrow>
        (\<forall>item\<in>set data. \<forall>l\<in>set (labels item).
           \<forall>k. category l = Some k \<and> map_of cm k \<noteq> None \<longrightarrow> poly2d l \<noteq> Some []))"
proof -
  have a: "bdd100k_to_yolov8 ''in.json'' ''out'' ''src'' ''dst'' [(''car'', 0)]
     (sample_world [\<lparr>name = ''a.jpg'', labels = [lab_empty_poly]\<rparr>]) =
     Raised IndexError
       \<lparr>json_files = [''in.json'' \<mapsto> [\<lparr>name = ''a.jpg'', labels = [lab_empty_poly]\<rparr>]],
        files = [''src/a.jpg'' \<mapsto> ''IMG'', ''dst/a.jpg'' \<mapsto> ''IMG'', ''out/a.txt'' \<mapsto> []],
        stdout = [],
        io_log = [CopyFile ''src/a.jpg'' ''dst/a.jpg'', OpenWrite ''out/a.txt'']\<rparr>"
    by (simp add: run_defs lab_empty_poly_def)
  have b: "labels_loop cm f (pre @ lab # post) s =
          Raised IndexError (s1\<lparr>categories_in_json := counter_incr (categories_in_json s1) cat\<rparr>)"
    if "labels_loop cm f pre s = Normal s1 \<and> poly2d lab = Some []
        \<and> category lab = Some cat \<and> map_of cm cat = Some cid"
    using that by (auto simp: labels_loop_append label_body_def)
  have c: "\<forall>l\<in>set (labels item). \<forall>k. category l = Some k \<and> map_of cm k \<noteq> None \<longrightarrow> poly2d l \<noteq> Some []"
    if h: "files t (os_path_join sd [name item]) = Some bytes
        \<and> item_body od sd dd cm item t = Normal t'"
  proof
    fix l assume l: "l \<in> set (labels item)"
    from h item_body_Normal_labels [of t sd item bytes od dd cm t']
    obtain u where "labels_loop cm (label_path od (name item)) (labels item) u = Normal t'"
      by blast
    from labels_loop_Normal_each [OF this l] obtain s1 s2
      where "label_body cm (label_path od (name item)) l s1 = Normal s2" by blast
    from label_body_Normal_needs(2) [OF this]
    show "\<forall>k. category l = Some k \<and> map_of cm k \<noteq> None \<longrightarrow> poly2d l \<noteq> Some []" by auto
  qed
  have d: "\<forall>item\<in>set data. \<forall>l\<in>set (labels item).
           \<forall>k. category l = Some k \<and> map_of cm k \<noteq> None \<longrightarrow> poly2d l \<noteq> Some []"
    if h: "json_files w input_json = Some data
        \<and> bdd100k_to_yolov8 input_json od sd dd cm w = Normal (w', n, 0, c)"
  proof (intro ballI)
    fix item l assume i: "item \<in> set data" and l: "l \<in> set (labels item)"
    from h run_Normal_no_missing [of w input_json data od sd dd cm w' n c item l] i l
    obtain g s1 s2 where "label_body cm g l s1 = Normal s2" by blast
    from label_body_Normal_needs(2) [OF this]
    show "\<forall>k. category l = Some k \<and> map_of cm k \<noteq> None \<longrightarrow> poly2d l \<noteq> Some []" by auto
  qed
  from a b c d show ?thesis by blast
qed

text \<open>
  Against claim C9 as stated: the same record converted with the empty mapping. The
  polygon list is empty and the run returns without error.
\<close>

theorem empty_polygon_list_with_unmapped_category_returns:
  "bdd100k_to_yolov8 ''in.json'' ''out'' ''src'' ''dst'' []
     (sample_world [\<lparr>name = ''a.jpg'', labels = [lab_empty_poly]\<rparr>]) =
     Normal (\<lparr>json_files = [''in.json'' \<mapsto> [\<lparr>name = ''a.jpg'', labels = [lab_empty_poly]\<rparr>]],
              files = [''src/a.jpg'' \<mapsto> ''IMG'', ''dst/a.jpg'' \<mapsto> ''IMG'', ''out/a.txt'' \<mapsto> []],
              stdout = [warning_line ''car'', [CHR 0x0A] @ ''Category statistics:'', ''car: 1 instances''],
              io_log = [CopyFile ''src/a.jpg'' ''dst/a.jpg'', OpenWrite ''out/a.txt'']\<rparr>,
             1, 0, [(''car'', 1)])"
  by (simp add: run_defs lab_empty_poly_def)


text \<open>The amended claim at the sample labels.\<close>

theorem empty_polygon_list_sample:
  "labels_loop [(''car'', 0)] ''out/a.txt'' [] sample_state = Normal sample_state
   \<and> poly2d lab_empty_poly = Some [] \<and> category lab_empty_poly = Some ''car''
   \<and> map_of [(''car'', 0 :: nat)] ''car'' = Some 0
   \<and> labels_loop [(''car'', 0)] ''out/a.txt'' [lab_empty_poly] sample_state =
       Raised IndexError (sample_state\<lparr>categories_in_json := [(''car'', 1)]\<rparr>)
   \<and> files sample_state (os_path_join ''src'' [name \<lparr>name = ''a.jpg'', labels = [lab_short]\<rparr>]) =
       Some ''IMG''
   \<and> item_body ''out'' ''src'' ''dst'' [(''car'', 0)] \<lparr>name = ''a.jpg'', labels = [lab_short]\<rparr>
         sample_state =
       Normal \<lparr>json_files = [''in.json'' \<mapsto> []],
               files = [''src/a.jpg'' \<mapsto> ''IMG'', ''dst/a.jpg'' \<mapsto> ''IMG'', ''out/a.txt'' \<mapsto> []],
               stdout = [],
               io_log = [CopyFile ''src/a.jpg'' ''dst/a.jpg'', OpenWrite ''out/a.txt''],
               categories_in_json = [(''car'', 1)], processed_images = {''a.jpg''},
               missing_images = []\<rparr>
   \<and> json_files (sample_world [\<lparr>name = ''a.jpg'', labels = [lab_short]\<rparr>]) ''in.json'' =
       Some [\<lparr>name = ''a.jpg'', labels = [lab_short]\<rparr>]
   \<and> bdd100k_to_yolov8 ''in.json'' ''out'' ''src'' ''dst'' [(''car'', 0)]
         (sample_world [\<lparr>name = ''a.jpg'', labels = [lab_short]\<rparr>]) =
       Normal (\<lparr>json_files = [''in.json'' \<mapsto> [\<lparr>name = ''a.jpg'', labels = [lab_short]\<rparr>]],
                files = [''src/a.jpg'' \<mapsto> ''IMG'', ''dst/a.jpg'' \<mapsto> ''IMG'', ''out/a.txt'' \<mapsto> []],
                stdout = [[CHR 0x0A] @ ''Category statistics:'', ''car: 1 instances''],
                io_log = [CopyFile ''src/a.jpg'' ''dst/a.jpg'', OpenWrite ''out/a.txt'']\<rparr>,
               1, 0, [(''car'', 1)])
   \<and> category lab_short = Some ''car'' \<and> poly2d lab_short \<noteq> Some []"
proof -
  let ?item = "\<lparr>name = ''a.jpg'', labels = [lab_short]\<rparr>"
  let ?t' = "\<lparr>json_files = [''in.json'' \<mapsto> []],
               files = [''src/a.jpg'' \<mapsto> ''IMG'', ''dst/a.jpg'' \<mapsto> ''IMG'', ''out/a.txt'' \<mapsto> []],
               stdout = [],
               io_log = [CopyFile ''src/a.jpg'' ''dst/a.jpg'', OpenWrite ''out/a.txt''],
               categories_in_json = [(''car'', 1)], processed_images = {''a.jpg''},
               missing_images = []\<rparr>"
  let ?w' = "\<lparr>json_files = [''in.json'' \<mapsto> [?item]],
                files = [''src/a.jpg'' \<mapsto> ''IMG'', ''dst/a.jpg'' \<mapsto> ''IMG'', ''out/a.txt'' \<mapsto> []],
                stdout = [[CHR 0x0A] @ ''Category statistics:'', ''car: 1 instances''],
                io_log = [CopyFile ''src/a.jpg'' ''dst/a.jpg'', OpenWrite ''out/a.txt'']\<rparr>"
  have h1: "labels_loop [(''car'', 0)] ''out/a.txt'' [] sample_state = Normal sample_state
            \<and> poly2d lab_empty_poly = Some [] \<and> category lab_empty_poly = Some ''car''
            \<and> map_of [(''car'', 0 :: nat)] ''car'' = Some 0"
    by (simp add: lab_empty_poly_def)
  have h2: "files sample_state (os_path_join ''src'' [name ?item]) = Some ''IMG''
            \<and> item_body ''out'' ''src'' ''dst'' [(''car'', 0)] ?item sample_state = Normal ?t'"
    by (simp add: sample_state_def run_defs lab_short_def)
  have h3: "json_files (sample_world [?item]) ''in.json'' = Some [?item]
            \<and> bdd100k_to_yolov8 ''in.json'' ''out'' ''src'' ''dst'' [(''car'', 0)] (sample_world [?item]) =
                Normal (?w', 1, 0, [(''car'', 1)])"
    by (simp add: run_defs lab_short_def)
  have h4: "category lab_short = Some ''car''" by (simp add: lab_short_def)
  have k: "counter_incr (categories_in_json sample_state) ''car'' = [(''car'', 1)]"
    by (simp add: sample_state_def world.extend_def conv_state.fields_def)
  from empty_polygon_list_raises_IndexError_when_category_mapped
    [where cm = "[(''car'', 0)]" and f = "''out/a.txt''" and pre = "[]" and s = sample_state
       and ?s1.0 = sample_state and lab = lab_empty_poly and post = "[]"
       and cat = "''car''" and cid = 0
       and t = sample_state and sd = "''src''" and item = ?item and bytes = "''IMG''"
       and od = "''out''" and dd = "''dst''" and t' = ?t'
       and w = "sample_world [?item]" and input_json = "''in.json''" and data = "[?item]"
       and w' = ?w' and n = 1 and c = "[(''car'', 1)]"]
    h1 h2 h3 h4 k
  show ?thesis by simp
qed

subsection \<open>Rounding, division and formatting\<close>




lemma pow2_pos: "0 < pow2 k"
  by (simp add: pow2_def)






















subsection \<open>The line written for a polygon\<close>



subsection \<open>Two records with the same image filename\<close>



end
